theory Spec2Isabelle
  imports Main
begin

section \<open>The Dabba app: session manager and API client\<close>

text \<open>
  The embedding follows two source files: \<^verbatim>\<open>services/api.ts\<close> (the axios instance
  with its request interceptor and the call groups) and
  \<^verbatim>\<open>src/context/AuthContext.tsx\<close> (the \<^verbatim>\<open>AuthProvider\<close> with
  \<^verbatim>\<open>loadStoredAuth\<close>, \<^verbatim>\<open>login\<close>, \<^verbatim>\<open>register\<close> and \<^verbatim>\<open>logout\<close>).

  An \<^verbatim>\<open>async\<close> function is modelled as a function from the world before the call to
  its settled promise and the world after it. A promise that rejects is \<open>Inl\<close> of the
  thrown value, one that resolves is \<open>Inr\<close> of its value. What the environment decides
  (whether a storage call rejects, what the remote system answers) is an argument of the
  model, so every \<^verbatim>\<open>try\<close>/\<^verbatim>\<open>catch\<close>/\<^verbatim>\<open>finally\<close> branch of the source is a branch here.
\<close>

subsection \<open>Data\<close>

text \<open>The \<^verbatim>\<open>User\<close> interface of AuthContext.tsx (optional fields as options).\<close>

record User =
  user_id :: string
  user_name :: string
  user_email :: string
  user_phone :: "string option"
  user_address :: "string option"
  user_role :: string

text \<open>The argument of \<^verbatim>\<open>register\<close>; the same shape is the body of POST /auth/register.\<close>

record register_data =
  name :: string
  email :: string
  password :: string
  phone :: "string option"
  address :: "string option"
  role :: "string option"

text \<open>
  The error response of the remote system as the \<^verbatim>\<open>catch\<close> blocks read it:
  \<^verbatim>\<open>error.response?.data?.detail\<close>. \<open>detail = None\<close> stands for a response whose data
  or detail is missing.
\<close>

record http_error =
  status :: nat
  detail :: "string option"

text \<open>
  What an awaited call can throw: AsyncStorage rejecting, or axios rejecting, either
  with the error response of the remote system or with none (no answer at all).
\<close>

datatype thrown = StorageError | AxiosError "http_error option"

type_synonym 'a promise = "thrown + 'a"

datatype http_method = GET | POST | PUT

datatype body =
    NoBody
  | LoginBody string string
  | RegisterBody register_data
  | SubscriptionBody string string
  | SkipBody string string
  | StatusBody string

text \<open>The axios request config, as far as the interceptor and the call groups use it.\<close>

record request =
  "method" :: http_method
  url :: string
  headers :: "string \<rightharpoonup> string"
  data :: body

text \<open>The payload of a successful login or register response: \<^verbatim>\<open>{ token, user }\<close>.\<close>

record auth_response =
  resp_token :: string
  resp_user :: User

text \<open>
  \<open>token_origin\<close> is a history variable, not a variable of the program: it records
  which statement last assigned \<^verbatim>\<open>token\<close> and whether the identity endpoint has
  accepted that token since.
\<close>

datatype origin = Unset | FromStore | Validated | Issued

text \<open>
  The world: the three \<^verbatim>\<open>useState\<close> cells of \<^verbatim>\<open>AuthProvider\<close>, the AsyncStorage
  contents, and the requests that left the client (oldest first).
\<close>

record world =
  user :: "User option"
  token :: "string option"
  isLoading :: bool
  token_origin :: origin
  storage :: "string \<rightharpoonup> string"
  sent :: "request list"

text \<open>The state of a fresh \<^verbatim>\<open>AuthProvider\<close>: \<^verbatim>\<open>useState(null)\<close> twice, \<^verbatim>\<open>useState(true)\<close>.\<close>

definition boot :: "(string \<rightharpoonup> string) \<Rightarrow> world" where
  "boot st = \<lparr>user = None, token = None, isLoading = True, token_origin = Unset,
     storage = st, sent = []\<rparr>"

subsection \<open>AsyncStorage\<close>

text \<open>
  AsyncStorage is a library: a call either resolves with its documented effect or
  rejects and leaves the contents alone. The flag \<open>ok\<close> says which one happens.
\<close>

definition getItem :: "bool \<Rightarrow> string \<Rightarrow> world \<Rightarrow> string option promise" where
  "getItem ok k w = (if ok then Inr (storage w k) else Inl StorageError)"

definition setItem :: "bool \<Rightarrow> string \<Rightarrow> string \<Rightarrow> world \<Rightarrow> unit promise \<times> world" where
  "setItem ok k v w =
     (if ok then (Inr (), w\<lparr>storage := (storage w)(k \<mapsto> v)\<rparr>) else (Inl StorageError, w))"

definition removeItem :: "bool \<Rightarrow> string \<Rightarrow> world \<Rightarrow> unit promise \<times> world" where
  "removeItem ok k w =
     (if ok then (Inr (), w\<lparr>storage := (storage w)(k := None)\<rparr>) else (Inl StorageError, w))"

subsection \<open>services/api.ts\<close>

text \<open>The instance defaults of \<^verbatim>\<open>axios.create\<close>.\<close>

definition default_headers :: "string \<rightharpoonup> string" where
  "default_headers = [''Content-Type'' \<mapsto> ''application/json'']"

definition config :: "http_method \<Rightarrow> string \<Rightarrow> body \<Rightarrow> request" where
  "config m u b = \<lparr>method = m, url = u, headers = default_headers, data = b\<rparr>"

text \<open>
  The request interceptor:
  \<^verbatim>\<open>const token = await AsyncStorage.getItem('authToken');
  if (token) { config.headers.Authorization = `Bearer ${token}`; }
  return config;\<close>
  \<^verbatim>\<open>if (token)\<close> is JavaScript truthiness of a \<^verbatim>\<open>string | null\<close>: false for
  \<^verbatim>\<open>null\<close> and for the empty string.
\<close>

definition request_interceptor :: "bool \<Rightarrow> world \<Rightarrow> request \<Rightarrow> request promise" where
  "request_interceptor ok w c =
     (case getItem ok ''authToken'' w of
        Inl e \<Rightarrow> Inl e
      | Inr None \<Rightarrow> Inr c
      | Inr (Some t) \<Rightarrow>
          if t \<noteq> [] then Inr (c\<lparr>headers := (headers c)(''Authorization'' \<mapsto> ''Bearer '' @ t)\<rparr>)
          else Inr c)"

text \<open>
  What the environment decides for one call of the client: whether the interceptor's
  storage read resolves, and what the remote system answers to the dispatched request.
\<close>

record 'a api_env =
  read_ok :: bool
  reply :: "http_error option + 'a"

text \<open>
  One call through the axios instance: the interceptor runs first; if it rejects, no
  request is dispatched and the call rejects with the same value; otherwise the config
  it returns is what goes out, and the call settles with the remote system's answer.
\<close>

definition api_request :: "'a api_env \<Rightarrow> request \<Rightarrow> world \<Rightarrow> 'a promise \<times> world" where
  "api_request env c w =
     (case request_interceptor (read_ok env) w c of
        Inl e \<Rightarrow> (Inl e, w)
      | Inr c' \<Rightarrow>
          (case reply env of
             Inl r \<Rightarrow> (Inl (AxiosError r), w\<lparr>sent := sent w @ [c']\<rparr>)
           | Inr d \<Rightarrow> (Inr d, w\<lparr>sent := sent w @ [c']\<rparr>)))"

definition api_get :: "string \<Rightarrow> 'a api_env \<Rightarrow> world \<Rightarrow> 'a promise \<times> world" where
  "api_get u env w = api_request env (config GET u NoBody) w"

definition api_post :: "string \<Rightarrow> body \<Rightarrow> 'a api_env \<Rightarrow> world \<Rightarrow> 'a promise \<times> world" where
  "api_post u b env w = api_request env (config POST u b) w"

definition api_put :: "string \<Rightarrow> body \<Rightarrow> 'a api_env \<Rightarrow> world \<Rightarrow> 'a promise \<times> world" where
  "api_put u b env w = api_request env (config PUT u b) w"

definition authAPI_register ::
  "register_data \<Rightarrow> auth_response api_env \<Rightarrow> world \<Rightarrow> auth_response promise \<times> world" where
  "authAPI_register d = api_post ''/auth/register'' (RegisterBody d)"

definition authAPI_login ::
  "string \<Rightarrow> string \<Rightarrow> auth_response api_env \<Rightarrow> world \<Rightarrow> auth_response promise \<times> world" where
  "authAPI_login e p = api_post ''/auth/login'' (LoginBody e p)"

definition authAPI_getMe :: "User api_env \<Rightarrow> world \<Rightarrow> User promise \<times> world" where
  "authAPI_getMe = api_get ''/auth/me''"

definition subscriptionAPI_getSubscription :: "'a api_env \<Rightarrow> world \<Rightarrow> 'a promise \<times> world" where
  "subscriptionAPI_getSubscription = api_get ''/subscription''"

definition subscriptionAPI_createSubscription ::
  "string \<Rightarrow> string \<Rightarrow> 'a api_env \<Rightarrow> world \<Rightarrow> 'a promise \<times> world" where
  "subscriptionAPI_createSubscription plan delivery_address =
     api_post ''/subscription'' (SubscriptionBody plan delivery_address)"

definition subscriptionAPI_skipMeal ::
  "string \<Rightarrow> string \<Rightarrow> 'a api_env \<Rightarrow> world \<Rightarrow> 'a promise \<times> world" where
  "subscriptionAPI_skipMeal date meal_type = api_post ''/subscription/skip'' (SkipBody date meal_type)"

definition walletAPI_getWallet :: "'a api_env \<Rightarrow> world \<Rightarrow> 'a promise \<times> world" where
  "walletAPI_getWallet = api_get ''/wallet''"

definition driverAPI_getDeliveries :: "'a api_env \<Rightarrow> world \<Rightarrow> 'a promise \<times> world" where
  "driverAPI_getDeliveries = api_get ''/driver/deliveries''"

definition driverAPI_updateDeliveryStatus ::
  "string \<Rightarrow> string \<Rightarrow> 'a api_env \<Rightarrow> world \<Rightarrow> 'a promise \<times> world" where
  "driverAPI_updateDeliveryStatus i s =
     api_put (''/driver/delivery/'' @ i @ ''/status'') (StatusBody s)"

subsection \<open>src/context/AuthContext.tsx\<close>

text \<open>\<^verbatim>\<open>x || d\<close> for \<^verbatim>\<open>x: string | undefined\<close>: \<open>d\<close> when \<open>x\<close> is missing or empty.\<close>

definition or_else :: "string option \<Rightarrow> string \<Rightarrow> string" where
  "or_else x d = (case x of None \<Rightarrow> d | Some s \<Rightarrow> if s \<noteq> [] then s else d)"

text \<open>\<^verbatim>\<open>error.response?.data?.detail\<close> of a caught value.\<close>

fun response_detail :: "thrown \<Rightarrow> string option" where
  "response_detail StorageError = None"
| "response_detail (AxiosError None) = None"
| "response_detail (AxiosError (Some r)) = detail r"

text \<open>The result of \<^verbatim>\<open>login\<close> and \<^verbatim>\<open>register\<close>: \<^verbatim>\<open>{ success, error? }\<close>.\<close>

record auth_result =
  success :: bool
  error :: "string option"

text \<open>What the environment decides for \<^verbatim>\<open>loadStoredAuth\<close>.\<close>

record hydrate_env =
  get_ok :: bool
  me :: "User api_env"
  remove_ok :: bool

text \<open>
  \<^verbatim>\<open>loadStoredAuth\<close>. The \<^verbatim>\<open>try\<close> block settles first; the \<^verbatim>\<open>catch\<close> block runs on a
  rejection and may reject itself (its \<^verbatim>\<open>removeItem\<close>); the \<^verbatim>\<open>finally\<close> block runs
  in every case.
\<close>

definition loadStoredAuth_try :: "hydrate_env \<Rightarrow> world \<Rightarrow> unit promise \<times> world" where
  "loadStoredAuth_try env w =
     (case getItem (get_ok env) ''authToken'' w of
        Inl e \<Rightarrow> (Inl e, w)
      | Inr None \<Rightarrow> (Inr (), w)
      | Inr (Some storedToken) \<Rightarrow>
          if storedToken \<noteq> [] then
            (case authAPI_getMe (me env) (w\<lparr>token := Some storedToken, token_origin := FromStore\<rparr>) of
               (Inl e, w') \<Rightarrow> (Inl e, w')
             | (Inr u, w') \<Rightarrow> (Inr (), w'\<lparr>user := Some u, token_origin := Validated\<rparr>))
          else (Inr (), w))"

definition loadStoredAuth :: "hydrate_env \<Rightarrow> world \<Rightarrow> unit promise \<times> world" where
  "loadStoredAuth env w =
     (case (case loadStoredAuth_try env w of
              (Inl e, w') \<Rightarrow> removeItem (remove_ok env) ''authToken'' w'
            | (Inr x, w') \<Rightarrow> (Inr x, w')) of
        (r, w'') \<Rightarrow> (r, w''\<lparr>isLoading := False\<rparr>))"

text \<open>What the environment decides for \<^verbatim>\<open>login\<close> and \<^verbatim>\<open>register\<close>.\<close>

record auth_env =
  call :: "auth_response api_env"
  set_ok :: bool

text \<open>
  The two \<^verbatim>\<open>catch\<close> blocks:
  \<^verbatim>\<open>const message = error.response?.data?.detail || fallback;
  return { success: false, error: message };\<close>
  with the fallback \<^verbatim>\<open>Login failed\<close> in \<^verbatim>\<open>login\<close> and \<^verbatim>\<open>Registration failed\<close> in
  \<^verbatim>\<open>register\<close>.
\<close>

definition failure :: "thrown \<Rightarrow> string \<Rightarrow> auth_result" where
  "failure e fallback = \<lparr>success = False, error = Some (or_else (response_detail e) fallback)\<rparr>"

text \<open>
  The common tail of the two \<^verbatim>\<open>try\<close> blocks, after the response has arrived:
  \<^verbatim>\<open>await AsyncStorage.setItem('authToken', authToken); setToken(authToken);
  setUser(userData); return { success: true };\<close>
\<close>

definition store_session :: "bool \<Rightarrow> auth_response \<Rightarrow> world \<Rightarrow> unit promise \<times> world" where
  "store_session ok r w =
     (case setItem ok ''authToken'' (resp_token r) w of
        (Inl e, w') \<Rightarrow> (Inl e, w')
      | (Inr _, w') \<Rightarrow>
          (Inr (), w'\<lparr>token := Some (resp_token r), user := Some (resp_user r),
                       token_origin := Issued\<rparr>))"

definition login :: "string \<Rightarrow> string \<Rightarrow> auth_env \<Rightarrow> world \<Rightarrow> auth_result \<times> world" where
  "login e p env w =
     (case authAPI_login e p (call env) w of
        (Inl err, w') \<Rightarrow> (failure err ''Login failed'', w')
      | (Inr r, w') \<Rightarrow>
          (case store_session (set_ok env) r w' of
             (Inl err, w'') \<Rightarrow> (failure err ''Login failed'', w'')
           | (Inr _, w'') \<Rightarrow> (\<lparr>success = True, error = None\<rparr>, w'')))"

text \<open>
  \<^verbatim>\<open>register\<close> calls \<^verbatim>\<open>authAPI.register({ ...data, phone: data.phone || '0000000000' })\<close>:
  the caller's fields with the phone overwritten.
\<close>

definition register :: "register_data \<Rightarrow> auth_env \<Rightarrow> world \<Rightarrow> auth_result \<times> world" where
  "register d env w =
     (case authAPI_register (d\<lparr>phone := Some (or_else (phone d) ''0000000000'')\<rparr>) (call env) w of
        (Inl err, w') \<Rightarrow> (failure err ''Registration failed'', w')
      | (Inr r, w') \<Rightarrow>
          (case store_session (set_ok env) r w' of
             (Inl err, w'') \<Rightarrow> (failure err ''Registration failed'', w'')
           | (Inr _, w'') \<Rightarrow> (\<lparr>success = True, error = None\<rparr>, w'')))"

definition logout :: "bool \<Rightarrow> world \<Rightarrow> unit promise \<times> world" where
  "logout ok w =
     (case removeItem ok ''authToken'' w of
        (Inl e, w') \<Rightarrow> (Inl e, w')
      | (Inr _, w') \<Rightarrow> (Inr (), w'\<lparr>token := None, user := None, token_origin := Unset\<rparr>))"

subsection \<open>Process runs\<close>

text \<open>
  After \<^verbatim>\<open>AuthProvider\<close> has mounted, its \<^verbatim>\<open>useEffect\<close> (empty dependency list) has
  called \<^verbatim>\<open>loadStoredAuth\<close> once; \<^verbatim>\<open>loadStoredAuth\<close> is not part of the context
  value, so nothing else can call it. From then on the screens call \<^verbatim>\<open>login\<close>,
  \<^verbatim>\<open>register\<close>, \<^verbatim>\<open>logout\<close> and the call groups of the client, one after the other.
\<close>

text \<open>
  An event carries the arguments of the call and what the environment decides for it.
  \<open>Call m u b ok\<close> is a request of a screen through the client; the world does not
  depend on the answer, so only the interceptor's read is a parameter.
\<close>

datatype event =
    Login string string auth_env
  | Register register_data auth_env
  | Logout bool
  | Call http_method string body bool

fun step :: "world \<Rightarrow> event \<Rightarrow> world" where
  "step w (Login e p env) = snd (login e p env w)"
| "step w (Register d env) = snd (register d env w)"
| "step w (Logout ok) = snd (logout ok w)"
| "step w (Call m u b ok) =
     snd (api_request \<lparr>read_ok = ok, reply = Inr ()\<rparr> (config m u b) w)"

definition hydrated :: "(string \<rightharpoonup> string) \<Rightarrow> hydrate_env \<Rightarrow> world" where
  "hydrated st henv = snd (loadStoredAuth henv (boot st))"

definition process :: "(string \<rightharpoonup> string) \<Rightarrow> hydrate_env \<Rightarrow> event list \<Rightarrow> world" where
  "process st henv evs = foldl step (hydrated st henv) evs"

text \<open>
  The invariant of the session state: a user is held exactly when a token is held that
  the identity endpoint has accepted or that a login or registration has just issued.
\<close>

definition session_invariant :: "world \<Rightarrow> bool" where
  "session_invariant w =
     ((user w \<noteq> None) =
      (token w \<noteq> None \<and> (token_origin w = Validated \<or> token_origin w = Issued)))"

section \<open>Basic facts\<close>

lemma boot_simps:
  "user (boot st) = None" "token (boot st) = None" "isLoading (boot st) = True"
  "token_origin (boot st) = Unset" "storage (boot st) = st" "sent (boot st) = []"
  by (simp_all add: boot_def)

lemmas client_defs = authAPI_login_def authAPI_register_def authAPI_getMe_def
  walletAPI_getWallet_def api_get_def api_post_def api_put_def

text \<open>A call of the client touches neither the session state nor the storage.\<close>

lemma api_request_session:
  "user (snd (api_request env c w)) = user w"
  "token (snd (api_request env c w)) = token w"
  "isLoading (snd (api_request env c w)) = isLoading w"
  "token_origin (snd (api_request env c w)) = token_origin w"
  "storage (snd (api_request env c w)) = storage w"
  by (simp_all add: api_request_def request_interceptor_def getItem_def
        split: sum.splits option.splits)

lemma api_request_fst:
  "fst (api_request env c w) =
     (if read_ok env then (case reply env of Inl r \<Rightarrow> Inl (AxiosError r) | Inr d \<Rightarrow> Inr d)
      else Inl StorageError)"
  by (simp add: api_request_def request_interceptor_def getItem_def
        split: sum.splits option.splits)

lemma api_request_sent_bearer:
  "read_ok env \<Longrightarrow> storage w ''authToken'' = Some t \<Longrightarrow> t \<noteq> [] \<Longrightarrow>
   sent (snd (api_request env c w)) =
     sent w @ [c\<lparr>headers := (headers c)(''Authorization'' \<mapsto> ''Bearer '' @ t)\<rparr>]"
  by (simp add: api_request_def request_interceptor_def getItem_def split: sum.splits)

lemma api_request_sent_plain:
  "read_ok env \<Longrightarrow> storage w ''authToken'' = None \<or> storage w ''authToken'' = Some [] \<Longrightarrow>
   sent (snd (api_request env c w)) = sent w @ [c]"
  by (auto simp add: api_request_def request_interceptor_def getItem_def split: sum.splits)

lemma api_request_not_sent:
  "\<not> read_ok env \<Longrightarrow> sent (snd (api_request env c w)) = sent w"
  by (simp add: api_request_def request_interceptor_def getItem_def)

lemma api_request_sent_fields:
  "read_ok env \<Longrightarrow> map data (sent (snd (api_request env c w))) = map data (sent w) @ [data c]"
  "read_ok env \<Longrightarrow> map url (sent (snd (api_request env c w))) = map url (sent w) @ [url c]"
  "read_ok env \<Longrightarrow>
     map method (sent (snd (api_request env c w))) = map method (sent w) @ [method c]"
  by (auto simp add: api_request_def request_interceptor_def getItem_def
        split: sum.splits option.splits)

lemma config_no_authorization: "headers (config m u b) ''Authorization'' = None"
  by (simp add: config_def default_headers_def)

lemma store_session_fault:
  "\<not> ok \<Longrightarrow> store_session ok r w = (Inl StorageError, w)"
  by (simp add: store_session_def setItem_def)

lemma store_session_ok:
  "ok \<Longrightarrow> store_session ok r w =
     (Inr (), w\<lparr>storage := (storage w)(''authToken'' \<mapsto> resp_token r),
              token := Some (resp_token r), user := Some (resp_user r), token_origin := Issued\<rparr>)"
  by (simp add: store_session_def setItem_def)

lemma store_session_cases:
  "store_session ok r w = (Inl StorageError, w) \<or>
   store_session ok r w =
     (Inr (), w\<lparr>storage := (storage w)(''authToken'' \<mapsto> resp_token r),
              token := Some (resp_token r), user := Some (resp_user r), token_origin := Issued\<rparr>)"
  by (cases ok) (simp_all add: store_session_ok store_session_fault)

lemma store_session_sent: "sent (snd (store_session ok r w)) = sent w"
  by (cases ok) (simp_all add: store_session_ok store_session_fault)

lemma store_session_isLoading: "isLoading (snd (store_session ok r w)) = isLoading w"
  by (cases ok) (simp_all add: store_session_ok store_session_fault)

section \<open>The API client attaches the stored token\<close>

text \<open>
  Claim C2, as stated, asks for \<^verbatim>\<open>Authorization: Bearer <token>\<close> whenever a token is
  present in the persistent store. The interceptor tests \<^verbatim>\<open>if (token)\<close>: with the
  empty string stored under \<^verbatim>\<open>authToken\<close>, the request to \<^verbatim>\<open>/wallet\<close> leaves with the
  default headers only, not with \<^verbatim>\<open>Authorization: Bearer \<close>.
\<close>

theorem api_request_empty_token_no_header:
  "storage (boot [''authToken'' \<mapsto> '''']) ''authToken'' = Some ''''
   \<and> sent (snd (walletAPI_getWallet \<lparr>read_ok = True, reply = Inr ()\<rparr>
               (boot [''authToken'' \<mapsto> '''']))) = [config GET ''/wallet'' NoBody]
   \<and> headers (config GET ''/wallet'' NoBody) ''Authorization'' \<noteq> Some (''Bearer '' @ '''')"
  by (simp add: client_defs api_request_def request_interceptor_def getItem_def boot_def
        config_def default_headers_def)

text \<open>
  Claim C2, amended: every request the client dispatches is built from the token read
  from the persistent store at that moment, not from the in-memory \<^verbatim>\<open>token\<close>. If a
  non-empty token is stored, the request carries \<^verbatim>\<open>Authorization: Bearer <token>\<close>
  next to the default headers; if no token is stored, or the empty string is, the
  request carries no \<^verbatim>\<open>Authorization\<close> header.
\<close>

theorem api_request_attaches_stored_token:
  assumes "read_ok env"
  shows "(\<forall>t. storage w ''authToken'' = Some t \<and> t \<noteq> [] \<longrightarrow>
            sent (snd (api_request env (config m u b) w)) =
              sent w @ [(config m u b)
                \<lparr>headers := default_headers(''Authorization'' \<mapsto> ''Bearer '' @ t)\<rparr>])
       \<and> (storage w ''authToken'' = None \<or> storage w ''authToken'' = Some [] \<longrightarrow>
            sent (snd (api_request env (config m u b) w)) = sent w @ [config m u b]
            \<and> headers (config m u b) ''Authorization'' = None)
       \<and> sent (snd (api_request env (config m u b) (w\<lparr>token := x\<rparr>))) =
           sent (snd (api_request env (config m u b) w))"
proof (intro conjI allI impI)
  fix t assume "storage w ''authToken'' = Some t \<and> t \<noteq> []"
  with assms have "sent (snd (api_request env (config m u b) w)) =
      sent w @ [(config m u b)
        \<lparr>headers := (headers (config m u b))(''Authorization'' \<mapsto> ''Bearer '' @ t)\<rparr>]"
    by (simp add: api_request_sent_bearer)
  then show "sent (snd (api_request env (config m u b) w)) =
      sent w @ [(config m u b)
        \<lparr>headers := default_headers(''Authorization'' \<mapsto> ''Bearer '' @ t)\<rparr>]"
    by (simp add: config_def)
next
  assume "storage w ''authToken'' = None \<or> storage w ''authToken'' = Some []"
  with assms show "sent (snd (api_request env (config m u b) w)) = sent w @ [config m u b]"
    by (rule api_request_sent_plain)
next
  show "headers (config m u b) ''Authorization'' = None"
    by (rule config_no_authorization)
next
  show "sent (snd (api_request env (config m u b) (w\<lparr>token := x\<rparr>))) =
          sent (snd (api_request env (config m u b) w))"
    by (simp add: api_request_def request_interceptor_def getItem_def
          split: sum.splits option.splits)
qed

text \<open>
  The theorem at two worlds. In the first, \<^verbatim>\<open>abc123\<close> is stored while the in-memory
  token is absent: the request carries the bearer header. In the second, nothing is
  stored while the in-memory token is \<^verbatim>\<open>abc123\<close>: the request carries none.
\<close>

theorem api_request_attaches_stored_token_witness:
  "read_ok \<lparr>read_ok = True, reply = Inr ()\<rparr>
   \<and> storage (boot [''authToken'' \<mapsto> ''abc123'']) ''authToken'' = Some ''abc123''
   \<and> sent (snd (api_request \<lparr>read_ok = True, reply = Inr ()\<rparr> (config GET ''/menu'' NoBody)
        (boot [''authToken'' \<mapsto> ''abc123'']))) =
       [(config GET ''/menu'' NoBody)
          \<lparr>headers := default_headers(''Authorization'' \<mapsto> ''Bearer abc123'')\<rparr>]
   \<and> storage ((boot Map.empty)\<lparr>token := Some ''abc123''\<rparr>) ''authToken'' = None
   \<and> sent (snd (api_request \<lparr>read_ok = True, reply = Inr ()\<rparr> (config GET ''/menu'' NoBody)
        ((boot Map.empty)\<lparr>token := Some ''abc123''\<rparr>))) = [config GET ''/menu'' NoBody]"
  using
    api_request_attaches_stored_token [of "\<lparr>read_ok = True, reply = Inr ()\<rparr>"
      "boot [''authToken'' \<mapsto> ''abc123'']" GET "''/menu''" NoBody None]
    api_request_attaches_stored_token [of "\<lparr>read_ok = True, reply = Inr ()\<rparr>"
      "boot Map.empty" GET "''/menu''" NoBody "Some ''abc123''"]
  by (simp add: boot_def)

text \<open>
  Claim C9: with the empty string stored under \<^verbatim>\<open>authToken\<close>, a dispatched request
  carries no \<^verbatim>\<open>Authorization\<close> header, and the call settles and sends exactly as it
  does when the key is absent.
\<close>

theorem api_request_empty_token_like_absent:
  assumes "storage w ''authToken'' = Some []"
  shows "(read_ok env \<longrightarrow>
            sent (snd (api_request env (config m u b) w)) = sent w @ [config m u b])
       \<and> headers (config m u b) ''Authorization'' = None
       \<and> fst (api_request env c w) =
           fst (api_request env c (w\<lparr>storage := (storage w)(''authToken'' := None)\<rparr>))
       \<and> sent (snd (api_request env c w)) =
           sent (snd (api_request env c (w\<lparr>storage := (storage w)(''authToken'' := None)\<rparr>)))"
proof (intro conjI impI)
  assume "read_ok env"
  with assms show "sent (snd (api_request env (config m u b) w)) = sent w @ [config m u b]"
    by (simp add: api_request_sent_plain)
next
  show "headers (config m u b) ''Authorization'' = None"
    by (rule config_no_authorization)
next
  show "fst (api_request env c w) =
          fst (api_request env c (w\<lparr>storage := (storage w)(''authToken'' := None)\<rparr>))"
    by (simp add: api_request_fst)
next
  from assms show "sent (snd (api_request env c w)) =
      sent (snd (api_request env c (w\<lparr>storage := (storage w)(''authToken'' := None)\<rparr>)))"
    by (simp add: api_request_def request_interceptor_def getItem_def
          split: sum.splits option.splits)
qed

theorem api_request_empty_token_like_absent_witness:
  "storage (boot [''authToken'' \<mapsto> '''']) ''authToken'' = Some []
   \<and> read_ok \<lparr>read_ok = True, reply = Inr ()\<rparr>
   \<and> sent (snd (api_request \<lparr>read_ok = True, reply = Inr ()\<rparr>
        (config GET ''/subscription'' NoBody) (boot [''authToken'' \<mapsto> '''']))) =
       [config GET ''/subscription'' NoBody]
   \<and> headers (config GET ''/subscription'' NoBody) ''Authorization'' = None"
  using api_request_empty_token_like_absent [of "boot [''authToken'' \<mapsto> '''']"
      "\<lparr>read_ok = True, reply = Inr ()\<rparr>" GET "''/subscription''" NoBody
      "config GET ''/subscription'' NoBody"]
  by (simp add: boot_def)

section \<open>Hydration\<close>

text \<open>
  The \<^verbatim>\<open>catch\<close> and \<^verbatim>\<open>finally\<close> blocks of \<^verbatim>\<open>loadStoredAuth\<close> assign neither
  \<^verbatim>\<open>user\<close> nor \<^verbatim>\<open>token\<close>; \<^verbatim>\<open>finally\<close> always clears \<^verbatim>\<open>isLoading\<close>.
\<close>

lemma loadStoredAuth_session:
  "user (snd (loadStoredAuth env w)) = user (snd (loadStoredAuth_try env w))"
  "token (snd (loadStoredAuth env w)) = token (snd (loadStoredAuth_try env w))"
  "token_origin (snd (loadStoredAuth env w)) = token_origin (snd (loadStoredAuth_try env w))"
  "isLoading (snd (loadStoredAuth env w)) = False"
  by (simp_all add: loadStoredAuth_def removeItem_def split: prod.splits sum.splits)

text \<open>
  What \<^verbatim>\<open>loadStoredAuth\<close> does when a non-empty token is stored and the identity
  check rejects, with the storage calls resolving: the promise resolves, the stored
  token is removed, \<^verbatim>\<open>isLoading\<close> is cleared, \<^verbatim>\<open>user\<close> is left as it was, and the
  in-memory \<^verbatim>\<open>token\<close> keeps the stored value that \<^verbatim>\<open>setToken(storedToken)\<close> gave it.
\<close>

lemma loadStoredAuth_check_fails:
  assumes "get_ok env" and "storage w ''authToken'' = Some t" and "t \<noteq> []"
    and "fst (authAPI_getMe (me env) (w\<lparr>token := Some t, token_origin := FromStore\<rparr>)) = Inl err"
    and "remove_ok env"
  shows "fst (loadStoredAuth env w) = Inr ()"
    and "storage (snd (loadStoredAuth env w)) ''authToken'' = None"
    and "token (snd (loadStoredAuth env w)) = Some t"
    and "user (snd (loadStoredAuth env w)) = user w"
    and "isLoading (snd (loadStoredAuth env w)) = False"
proof -
  let ?w1 = "w\<lparr>token := Some t, token_origin := FromStore\<rparr>"
  obtain w' where call: "authAPI_getMe (me env) ?w1 = (Inl err, w')"
    using assms(4) by (cases "authAPI_getMe (me env) ?w1") auto
  then have w': "w' = snd (api_request (me env) (config GET ''/auth/me'' NoBody) ?w1)"
    by (simp add: client_defs)
  have res: "loadStoredAuth env w =
      (Inr (), w'\<lparr>storage := (storage w')(''authToken'' := None), isLoading := False\<rparr>)"
    using assms(1,2,3,5)
    by (simp add: loadStoredAuth_def loadStoredAuth_try_def getItem_def call removeItem_def)
  show "fst (loadStoredAuth env w) = Inr ()"
    and "storage (snd (loadStoredAuth env w)) ''authToken'' = None"
    and "token (snd (loadStoredAuth env w)) = Some t"
    and "user (snd (loadStoredAuth env w)) = user w"
    and "isLoading (snd (loadStoredAuth env w)) = False"
    by (simp_all add: res w' api_request_session)
qed

text \<open>
  Claim C1 at a concrete process: \<^verbatim>\<open>abc123\<close> is stored and GET /auth/me answers 401.
  \<^verbatim>\<open>loadStoredAuth\<close> resolves, one request (with the bearer header) has gone out, the
  stored token is removed, \<^verbatim>\<open>user\<close> is absent and \<^verbatim>\<open>isLoading\<close> is false, but the
  in-memory \<^verbatim>\<open>token\<close> is still \<^verbatim>\<open>abc123\<close>: the \<^verbatim>\<open>catch\<close> block has no
  \<^verbatim>\<open>setToken(null)\<close>, which \<^verbatim>\<open>logout\<close> has.
\<close>

theorem loadStoredAuth_failed_check_keeps_token:
  "fst (loadStoredAuth
      \<lparr>get_ok = True,
       me = \<lparr>read_ok = True, reply = Inl (Some \<lparr>status = 401, detail = Some ''Invalid token''\<rparr>)\<rparr>,
       remove_ok = True\<rparr>
      (boot [''authToken'' \<mapsto> ''abc123''])) = Inr ()
   \<and> snd (loadStoredAuth
      \<lparr>get_ok = True,
       me = \<lparr>read_ok = True, reply = Inl (Some \<lparr>status = 401, detail = Some ''Invalid token''\<rparr>)\<rparr>,
       remove_ok = True\<rparr>
      (boot [''authToken'' \<mapsto> ''abc123''])) =
     \<lparr>user = None, token = Some ''abc123'', isLoading = False, token_origin = FromStore,
      storage = Map.empty,
      sent = [(config GET ''/auth/me'' NoBody)
                \<lparr>headers := default_headers(''Authorization'' \<mapsto> ''Bearer abc123'')\<rparr>]\<rparr>"
  by (simp add: loadStoredAuth_def loadStoredAuth_try_def getItem_def removeItem_def boot_def
        client_defs api_request_def request_interceptor_def config_def)

text \<open>
  Claim C7: in a process whose store holds no token, \<^verbatim>\<open>loadStoredAuth\<close> ends with
  \<^verbatim>\<open>user\<close> and \<^verbatim>\<open>token\<close> absent and \<^verbatim>\<open>isLoading\<close> false, and no request has left the
  client, so GET /auth/me was never issued. This holds whatever the storage calls and
  the remote system would do; when the storage read resolves, so does \<^verbatim>\<open>loadStoredAuth\<close>.
\<close>

theorem loadStoredAuth_no_token:
  assumes "st ''authToken'' = None"
  shows "user (snd (loadStoredAuth env (boot st))) = None
       \<and> token (snd (loadStoredAuth env (boot st))) = None
       \<and> isLoading (snd (loadStoredAuth env (boot st))) = False
       \<and> sent (snd (loadStoredAuth env (boot st))) = []
       \<and> (get_ok env \<longrightarrow> fst (loadStoredAuth env (boot st)) = Inr ())"
  using assms
  by (simp add: loadStoredAuth_def loadStoredAuth_try_def getItem_def removeItem_def boot_def)

theorem loadStoredAuth_no_token_witness:
  "Map.empty ''authToken'' = (None :: string option)
   \<and> get_ok \<lparr>get_ok = True, me = \<lparr>read_ok = True, reply = Inl None\<rparr>, remove_ok = True\<rparr>
   \<and> loadStoredAuth \<lparr>get_ok = True, me = \<lparr>read_ok = True, reply = Inl None\<rparr>, remove_ok = True\<rparr>
        (boot Map.empty) =
      (Inr (), \<lparr>user = None, token = None, isLoading = False, token_origin = Unset,
                storage = Map.empty, sent = []\<rparr>)"
  using loadStoredAuth_no_token [of Map.empty
      "\<lparr>get_ok = True, me = \<lparr>read_ok = True, reply = Inl None\<rparr>, remove_ok = True\<rparr>"]
  by (simp add: loadStoredAuth_def loadStoredAuth_try_def getItem_def boot_def)

section \<open>Login, register, logout\<close>

text \<open>
  A successful \<^verbatim>\<open>login\<close>: the remote system answered, the interceptor's read and the
  \<^verbatim>\<open>setItem\<close> resolved, and the world is the one after the request with the token
  stored and the session set from the response.
\<close>

lemma login_success:
  assumes "success (fst (login e p env w))"
  shows "\<exists>r. reply (call env) = Inr r \<and> read_ok (call env) \<and> set_ok env
     \<and> snd (login e p env w) =
        (snd (api_request (call env) (config POST ''/auth/login'' (LoginBody e p)) w))
          \<lparr>storage := (storage w)(''authToken'' \<mapsto> resp_token r),
           token := Some (resp_token r), user := Some (resp_user r), token_origin := Issued\<rparr>"
proof (cases "api_request (call env) (config POST ''/auth/login'' (LoginBody e p)) w")
  case (Pair res w')
  have w': "w' = snd (api_request (call env) (config POST ''/auth/login'' (LoginBody e p)) w)"
    by (simp add: Pair)
  have res: "res = fst (api_request (call env) (config POST ''/auth/login'' (LoginBody e p)) w)"
    by (simp add: Pair)
  show ?thesis
  proof (cases res)
    case (Inl err)
    with assms Pair show ?thesis
      by (simp add: login_def client_defs failure_def)
  next
    case (Inr r)
    with res have ok: "read_ok (call env)" and rep: "reply (call env) = Inr r"
      by (auto simp add: api_request_fst split: if_splits sum.splits)
    show ?thesis
    proof (cases "set_ok env")
      case False
      with assms Pair Inr show ?thesis
        by (simp add: login_def client_defs failure_def store_session_fault)
    next
      case True
      with Pair Inr have "login e p env w = (\<lparr>success = True, error = None\<rparr>,
          w'\<lparr>storage := (storage w')(''authToken'' \<mapsto> resp_token r),
             token := Some (resp_token r), user := Some (resp_user r),
             token_origin := Issued\<rparr>)"
        by (simp add: login_def client_defs store_session_ok)
      with ok rep True show ?thesis
        by (simp add: w' api_request_session)
    qed
  qed
qed

lemma logout_resolved:
  "fst (logout ok w) = Inr () \<Longrightarrow>
   snd (logout ok w) = w\<lparr>storage := (storage w)(''authToken'' := None), token := None,
                          user := None, token_origin := Unset\<rparr>"
  by (simp add: logout_def removeItem_def split: if_splits)

lemma register_sent:
  "sent (snd (register d env w)) =
     sent (snd (api_request (call env)
        (config POST ''/auth/register''
           (RegisterBody (d\<lparr>phone := Some (or_else (phone d) ''0000000000'')\<rparr>))) w))"
proof (cases "api_request (call env)
        (config POST ''/auth/register''
           (RegisterBody (d\<lparr>phone := Some (or_else (phone d) ''0000000000'')\<rparr>))) w")
  case (Pair res w')
  show ?thesis
  proof (cases res)
    case (Inl err)
    with Pair show ?thesis by (simp add: register_def client_defs)
  next
    case (Inr r)
    have "sent (snd (store_session (set_ok env) r w')) = sent w'"
      by (rule store_session_sent)
    with Pair Inr show ?thesis
      by (cases "store_session (set_ok env) r w'"; cases "fst (store_session (set_ok env) r w')")
         (auto simp add: register_def client_defs)
  qed
qed

text \<open>
  Claim C3, as stated, makes the error of a failed \<^verbatim>\<open>login\<close> the message of the
  server's error payload whenever the payload has one. \<^verbatim>\<open>login\<close> computes
  \<^verbatim>\<open>error.response?.data?.detail || 'Login failed'\<close>: a 401 whose payload is
  \<^verbatim>\<open>{detail: ""}\<close> has a detail, the empty string, and the result carries the
  fallback instead.
\<close>

theorem login_failure_empty_detail:
  "fst (authAPI_login ''a@b.com'' ''wrongpass''
      \<lparr>read_ok = True, reply = Inl (Some \<lparr>status = 401, detail = Some ''''\<rparr>)\<rparr>
      (boot Map.empty)) = Inl (AxiosError (Some \<lparr>status = 401, detail = Some ''''\<rparr>))
   \<and> response_detail (AxiosError (Some \<lparr>status = 401, detail = Some ''''\<rparr>)) = Some ''''
   \<and> fst (login ''a@b.com'' ''wrongpass''
      \<lparr>call = \<lparr>read_ok = True, reply = Inl (Some \<lparr>status = 401, detail = Some ''''\<rparr>)\<rparr>,
       set_ok = True\<rparr>
      (boot Map.empty)) = \<lparr>success = False, error = Some ''Login failed''\<rparr>"
  by (simp add: login_def client_defs api_request_def request_interceptor_def getItem_def
        boot_def failure_def or_else_def)

text \<open>
  Claim C3, amended: whenever the HTTP call of \<^verbatim>\<open>login(email, password)\<close> fails, the
  result is \<^verbatim>\<open>{success: false, error: m}\<close>, where \<open>m\<close> is the detail of the server's
  error payload when that is present and not empty, and \<^verbatim>\<open>Login failed\<close> otherwise (no
  response, no detail, or an empty one); \<^verbatim>\<open>user\<close>, \<^verbatim>\<open>token\<close>, \<^verbatim>\<open>isLoading\<close> and the
  persistent store are exactly as before the call.
\<close>

theorem login_failure_leaves_state:
  assumes "fst (authAPI_login e p (call env) w) = Inl err"
  shows "success (fst (login e p env w)) = False
       \<and> (\<forall>d. response_detail err = Some d \<and> d \<noteq> [] \<longrightarrow>
            error (fst (login e p env w)) = Some d)
       \<and> (response_detail err = None \<or> response_detail err = Some [] \<longrightarrow>
            error (fst (login e p env w)) = Some ''Login failed'')
       \<and> user (snd (login e p env w)) = user w
       \<and> token (snd (login e p env w)) = token w
       \<and> isLoading (snd (login e p env w)) = isLoading w
       \<and> storage (snd (login e p env w)) = storage w"
proof -
  obtain w' where call: "authAPI_login e p (call env) w = (Inl err, w')"
    using assms by (cases "authAPI_login e p (call env) w") auto
  then have w': "w' = snd (api_request (call env) (config POST ''/auth/login'' (LoginBody e p)) w)"
    by (simp add: client_defs)
  have res: "login e p env w = (failure err ''Login failed'', w')"
    by (simp add: login_def call)
  show ?thesis
    by (auto simp add: res w' api_request_session failure_def or_else_def)
qed

text \<open>
  The scenario of the specification: \<^verbatim>\<open>login("a@b.com", "wrongpass")\<close>, the remote
  system answers 401 with \<^verbatim>\<open>{detail: "Invalid credentials"}\<close>, while a session from an
  earlier login is held. The second half is a call that fails without any response.
\<close>

theorem login_failure_leaves_state_witness:
  "fst (authAPI_login ''a@b.com'' ''wrongpass''
      \<lparr>read_ok = True, reply = Inl (Some \<lparr>status = 401, detail = Some ''Invalid credentials''\<rparr>)\<rparr>
      (boot [''authToken'' \<mapsto> ''abc123''])) =
     Inl (AxiosError (Some \<lparr>status = 401, detail = Some ''Invalid credentials''\<rparr>))
   \<and> fst (login ''a@b.com'' ''wrongpass''
      \<lparr>call = \<lparr>read_ok = True,
                reply = Inl (Some \<lparr>status = 401, detail = Some ''Invalid credentials''\<rparr>)\<rparr>,
       set_ok = True\<rparr>
      (boot [''authToken'' \<mapsto> ''abc123''])) =
     \<lparr>success = False, error = Some ''Invalid credentials''\<rparr>
   \<and> storage (snd (login ''a@b.com'' ''wrongpass''
      \<lparr>call = \<lparr>read_ok = True,
                reply = Inl (Some \<lparr>status = 401, detail = Some ''Invalid credentials''\<rparr>)\<rparr>,
       set_ok = True\<rparr>
      (boot [''authToken'' \<mapsto> ''abc123'']))) = [''authToken'' \<mapsto> ''abc123'']
   \<and> fst (authAPI_login ''a@b.com'' ''pw'' \<lparr>read_ok = True, reply = Inl None\<rparr> (boot Map.empty)) =
     Inl (AxiosError None)
   \<and> fst (login ''a@b.com'' ''pw'' \<lparr>call = \<lparr>read_ok = True, reply = Inl None\<rparr>, set_ok = True\<rparr>
        (boot Map.empty)) = \<lparr>success = False, error = Some ''Login failed''\<rparr>"
proof -
  have a: "fst (authAPI_login ''a@b.com'' ''wrongpass''
      (call \<lparr>call = \<lparr>read_ok = True,
                reply = Inl (Some \<lparr>status = 401, detail = Some ''Invalid credentials''\<rparr>)\<rparr>,
       set_ok = True\<rparr>)
      (boot [''authToken'' \<mapsto> ''abc123''])) =
     Inl (AxiosError (Some \<lparr>status = 401, detail = Some ''Invalid credentials''\<rparr>))"
    by (simp add: client_defs api_request_fst)
  have b: "fst (authAPI_login ''a@b.com'' ''pw''
      (call \<lparr>call = \<lparr>read_ok = True, reply = Inl None\<rparr>, set_ok = True\<rparr>) (boot Map.empty)) =
     Inl (AxiosError None)"
    by (simp add: client_defs api_request_fst)
  show ?thesis
    using login_failure_leaves_state [OF a] login_failure_leaves_state [OF b] a b
    by (cases "fst (login ''a@b.com'' ''wrongpass''
          \<lparr>call = \<lparr>read_ok = True,
                reply = Inl (Some \<lparr>status = 401, detail = Some ''Invalid credentials''\<rparr>)\<rparr>,
           set_ok = True\<rparr> (boot [''authToken'' \<mapsto> ''abc123'']))";
        cases "fst (login ''a@b.com'' ''pw''
          \<lparr>call = \<lparr>read_ok = True, reply = Inl None\<rparr>, set_ok = True\<rparr> (boot Map.empty))")
       (simp add: boot_def)
qed

text \<open>
  Claim C4, as stated, promises the bearer header of the newly issued token on the call
  after any successful login. When the login response carries the empty string as its
  token, \<^verbatim>\<open>login\<close> succeeds and stores it, and the next call (here GET /wallet) leaves
  with no \<^verbatim>\<open>Authorization\<close> header.
\<close>

theorem next_call_after_login_empty_token:
  "fst (login ''a@b.com'' ''secret1''
      \<lparr>call = \<lparr>read_ok = True,
                reply = Inr \<lparr>resp_token = '''',
                  resp_user = \<lparr>user_id = ''u1'', user_name = ''A'', user_email = ''a@b.com'',
                    user_phone = None, user_address = None, user_role = ''customer''\<rparr>\<rparr>\<rparr>,
       set_ok = True\<rparr>
      (boot Map.empty)) = \<lparr>success = True, error = None\<rparr>
   \<and> sent (snd (walletAPI_getWallet \<lparr>read_ok = True, reply = Inr ()\<rparr>
      (snd (login ''a@b.com'' ''secret1''
        \<lparr>call = \<lparr>read_ok = True,
                  reply = Inr \<lparr>resp_token = '''',
                    resp_user = \<lparr>user_id = ''u1'', user_name = ''A'', user_email = ''a@b.com'',
                      user_phone = None, user_address = None, user_role = ''customer''\<rparr>\<rparr>\<rparr>,
         set_ok = True\<rparr>
        (boot Map.empty))))) =
     [config POST ''/auth/login'' (LoginBody ''a@b.com'' ''secret1''),
      config GET ''/wallet'' NoBody]
   \<and> headers (config GET ''/wallet'' NoBody) ''Authorization'' = None"
  by (simp add: login_def client_defs api_request_def request_interceptor_def getItem_def
        store_session_def setItem_def boot_def config_def default_headers_def)

text \<open>
  Claim C4, amended: a call of the client right after \<^verbatim>\<open>logout()\<close> has resolved goes
  out with no \<^verbatim>\<open>Authorization\<close> header, and a call right after a successful login that
  issued a non-empty token goes out with \<^verbatim>\<open>Authorization: Bearer\<close> and that token;
  nothing happens between the session manager's operation and the call.
\<close>

theorem next_call_after_logout_login:
  "(fst (logout ok w) = Inr () \<and> read_ok env \<longrightarrow>
      sent (snd (api_request env (config m u b) (snd (logout ok w)))) = sent w @ [config m u b]
      \<and> headers (config m u b) ''Authorization'' = None)
   \<and> (success (fst (login e p aenv w)) \<and> reply (call aenv) = Inr r \<and> resp_token r \<noteq> []
        \<and> read_ok env \<longrightarrow>
      sent (snd (api_request env (config m u b) (snd (login e p aenv w)))) =
        sent (snd (login e p aenv w)) @
          [(config m u b)
             \<lparr>headers := default_headers(''Authorization'' \<mapsto> ''Bearer '' @ resp_token r)\<rparr>])"
proof (intro conjI impI)
  assume a: "fst (logout ok w) = Inr () \<and> read_ok env"
  then have "snd (logout ok w) = w\<lparr>storage := (storage w)(''authToken'' := None),
      token := None, user := None, token_origin := Unset\<rparr>"
    by (simp add: logout_resolved)
  with a show "sent (snd (api_request env (config m u b) (snd (logout ok w)))) =
      sent w @ [config m u b]"
    by (simp add: api_request_sent_plain)
next
  show "headers (config m u b) ''Authorization'' = None"
    by (rule config_no_authorization)
next
  assume a: "success (fst (login e p aenv w)) \<and> reply (call aenv) = Inr r
      \<and> resp_token r \<noteq> [] \<and> read_ok env"
  then obtain r' where r': "reply (call aenv) = Inr r'" and
    w': "snd (login e p aenv w) =
        (snd (api_request (call aenv) (config POST ''/auth/login'' (LoginBody e p)) w))
          \<lparr>storage := (storage w)(''authToken'' \<mapsto> resp_token r'),
           token := Some (resp_token r'), user := Some (resp_user r'), token_origin := Issued\<rparr>"
    using login_success by blast
  from a r' have "r' = r" by simp
  with w' have "storage (snd (login e p aenv w)) ''authToken'' = Some (resp_token r)"
    by simp
  with a have "sent (snd (api_request env (config m u b) (snd (login e p aenv w)))) =
     sent (snd (login e p aenv w)) @
       [(config m u b)
          \<lparr>headers := (headers (config m u b))(''Authorization'' \<mapsto> ''Bearer '' @ resp_token r)\<rparr>]"
    by (simp add: api_request_sent_bearer)
  then show "sent (snd (api_request env (config m u b) (snd (login e p aenv w)))) =
        sent (snd (login e p aenv w)) @
          [(config m u b)
             \<lparr>headers := default_headers(''Authorization'' \<mapsto> ''Bearer '' @ resp_token r)\<rparr>]"
    by (simp add: config_def)
qed

text \<open>
  Two runs. A session from an earlier login is held and \<^verbatim>\<open>abc123\<close> is stored; after
  \<^verbatim>\<open>logout\<close> the request to \<^verbatim>\<open>/wallet\<close> has no header. From a fresh process a login
  that issues \<^verbatim>\<open>tok1\<close> is followed by a request to \<^verbatim>\<open>/wallet\<close> with \<^verbatim>\<open>Bearer tok1\<close>.
\<close>

theorem next_call_after_logout_login_witness:
  "fst (logout True ((boot [''authToken'' \<mapsto> ''abc123''])\<lparr>token := Some ''abc123''\<rparr>)) = Inr ()
   \<and> sent (snd (api_request \<lparr>read_ok = True, reply = Inr ()\<rparr> (config GET ''/wallet'' NoBody)
        (snd (logout True ((boot [''authToken'' \<mapsto> ''abc123''])\<lparr>token := Some ''abc123''\<rparr>))))) =
      [config GET ''/wallet'' NoBody]
   \<and> success (fst (login ''a@b.com'' ''secret1''
        \<lparr>call = \<lparr>read_ok = True,
                  reply = Inr \<lparr>resp_token = ''tok1'',
                    resp_user = \<lparr>user_id = ''u1'', user_name = ''A'', user_email = ''a@b.com'',
                      user_phone = None, user_address = None, user_role = ''customer''\<rparr>\<rparr>\<rparr>,
         set_ok = True\<rparr>
        (boot Map.empty)))
   \<and> sent (snd (api_request \<lparr>read_ok = True, reply = Inr ()\<rparr> (config GET ''/wallet'' NoBody)
        (snd (login ''a@b.com'' ''secret1''
          \<lparr>call = \<lparr>read_ok = True,
                    reply = Inr \<lparr>resp_token = ''tok1'',
                      resp_user = \<lparr>user_id = ''u1'', user_name = ''A'', user_email = ''a@b.com'',
                        user_phone = None, user_address = None, user_role = ''customer''\<rparr>\<rparr>\<rparr>,
           set_ok = True\<rparr>
          (boot Map.empty))))) =
      [config POST ''/auth/login'' (LoginBody ''a@b.com'' ''secret1''),
       (config GET ''/wallet'' NoBody)
         \<lparr>headers := default_headers(''Authorization'' \<mapsto> ''Bearer tok1'')\<rparr>]"
proof -
  let ?aenv = "\<lparr>call = \<lparr>read_ok = True,
                  reply = Inr \<lparr>resp_token = ''tok1'',
                    resp_user = \<lparr>user_id = ''u1'', user_name = ''A'', user_email = ''a@b.com'',
                      user_phone = None, user_address = None, user_role = ''customer''\<rparr>\<rparr>\<rparr>,
         set_ok = True\<rparr>"
  let ?w = "(boot [''authToken'' \<mapsto> ''abc123''])\<lparr>token := Some ''abc123''\<rparr>"
  have out: "fst (logout True ?w) = Inr ()"
    by (simp add: logout_def removeItem_def)
  have ok: "success (fst (login ''a@b.com'' ''secret1'' ?aenv (boot Map.empty)))"
    by (simp add: login_def client_defs api_request_def request_interceptor_def getItem_def
          store_session_def setItem_def boot_def)
  have before: "sent (snd (login ''a@b.com'' ''secret1'' ?aenv (boot Map.empty))) =
      [config POST ''/auth/login'' (LoginBody ''a@b.com'' ''secret1'')]"
    by (simp add: login_def client_defs api_request_def request_interceptor_def getItem_def
          store_session_def setItem_def boot_def)
  show ?thesis
    using out ok before
      next_call_after_logout_login [where ok = True and w = ?w
        and env = "\<lparr>read_ok = True, reply = Inr ()\<rparr>"
        and m = GET and u = "''/wallet''" and b = NoBody]
      next_call_after_logout_login [where e = "''a@b.com''" and p = "''secret1''"
        and aenv = ?aenv and w = "boot Map.empty"
        and env = "\<lparr>read_ok = True, reply = Inr ()\<rparr>"
        and m = GET and u = "''/wallet''" and b = NoBody
        and r = "\<lparr>resp_token = ''tok1'',
          resp_user = \<lparr>user_id = ''u1'', user_name = ''A'', user_email = ''a@b.com'',
            user_phone = None, user_address = None, user_role = ''customer''\<rparr>\<rparr>"]
    by (simp add: boot_def)
qed

text \<open>
  Claim C8, as stated, forwards every explicit phone unchanged. \<^verbatim>\<open>register\<close> sends
  \<^verbatim>\<open>data.phone || '0000000000'\<close>: a caller who passes the empty string as the phone
  gets the placeholder in the request body, not the value given.
\<close>

theorem register_empty_phone_replaced:
  "phone \<lparr>name = ''Sam'', email = ''s@x.com'', password = ''secret1'', phone = Some '''',
      address = None, role = Some ''driver''\<rparr> = Some ''''
   \<and> map data (sent (snd (register
      \<lparr>name = ''Sam'', email = ''s@x.com'', password = ''secret1'', phone = Some '''',
        address = None, role = Some ''driver''\<rparr>
      \<lparr>call = \<lparr>read_ok = True, reply = Inl None\<rparr>, set_ok = True\<rparr>
      (boot Map.empty)))) =
     [RegisterBody \<lparr>name = ''Sam'', email = ''s@x.com'', password = ''secret1'',
        phone = Some ''0000000000'', address = None, role = Some ''driver''\<rparr>]"
  by (simp add: register_def client_defs api_request_def request_interceptor_def getItem_def
        boot_def config_def or_else_def)

text \<open>
  Claim C8, amended: when \<^verbatim>\<open>register\<close> is called without a phone, the body of the
  request to POST /auth/register has the phone \<^verbatim>\<open>0000000000\<close>, which is neither
  empty nor absent; when it is called with a non-empty phone, the body is the caller's
  data unchanged.
\<close>

theorem register_phone_placeholder:
  assumes "read_ok (call env)"
  shows "(phone d = None \<longrightarrow>
            map data (sent (snd (register d env w))) =
              map data (sent w) @ [RegisterBody (d\<lparr>phone := Some ''0000000000''\<rparr>)])
       \<and> (\<forall>p. phone d = Some p \<and> p \<noteq> [] \<longrightarrow>
            map data (sent (snd (register d env w))) = map data (sent w) @ [RegisterBody d])
       \<and> map url (sent (snd (register d env w))) = map url (sent w) @ [''/auth/register'']
       \<and> map method (sent (snd (register d env w))) = map method (sent w) @ [POST]"
  using assms
  by (auto simp add: register_sent api_request_sent_fields or_else_def config_def)

text \<open>
  The scenario of the specification (\<^verbatim>\<open>Sam\<close>, a driver, no phone), and the same caller
  with the phone \<^verbatim>\<open>5551234\<close>.
\<close>

theorem register_phone_placeholder_witness:
  "read_ok (call \<lparr>call = \<lparr>read_ok = True, reply = Inl None\<rparr>, set_ok = True\<rparr>)
   \<and> map data (sent (snd (register
      \<lparr>name = ''Sam'', email = ''s@x.com'', password = ''secret1'', phone = None,
        address = None, role = Some ''driver''\<rparr>
      \<lparr>call = \<lparr>read_ok = True, reply = Inl None\<rparr>, set_ok = True\<rparr>
      (boot Map.empty)))) =
     [RegisterBody \<lparr>name = ''Sam'', email = ''s@x.com'', password = ''secret1'',
        phone = Some ''0000000000'', address = None, role = Some ''driver''\<rparr>]
   \<and> map data (sent (snd (register
      \<lparr>name = ''Sam'', email = ''s@x.com'', password = ''secret1'', phone = Some ''5551234'',
        address = None, role = Some ''driver''\<rparr>
      \<lparr>call = \<lparr>read_ok = True, reply = Inl None\<rparr>, set_ok = True\<rparr>
      (boot Map.empty)))) =
     [RegisterBody \<lparr>name = ''Sam'', email = ''s@x.com'', password = ''secret1'',
        phone = Some ''5551234'', address = None, role = Some ''driver''\<rparr>]"
  using
    register_phone_placeholder [of "\<lparr>call = \<lparr>read_ok = True, reply = Inl None\<rparr>, set_ok = True\<rparr>"
      "\<lparr>name = ''Sam'', email = ''s@x.com'', password = ''secret1'', phone = None,
        address = None, role = Some ''driver''\<rparr>" "boot Map.empty"]
    register_phone_placeholder [of "\<lparr>call = \<lparr>read_ok = True, reply = Inl None\<rparr>, set_ok = True\<rparr>"
      "\<lparr>name = ''Sam'', email = ''s@x.com'', password = ''secret1'', phone = Some ''5551234'',
        address = None, role = Some ''driver''\<rparr>" "boot Map.empty"]
  by (simp add: boot_def)

text \<open>
  Claim C10: when \<^verbatim>\<open>register\<close> is called with the empty string as the phone, the body
  of the request to POST /auth/register has the phone \<^verbatim>\<open>0000000000\<close>, as it has when
  the phone is omitted.
\<close>

theorem register_empty_phone_placeholder:
  assumes "phone d = Some []" and "read_ok (call env)"
  shows "map data (sent (snd (register d env w))) =
           map data (sent w) @ [RegisterBody (d\<lparr>phone := Some ''0000000000''\<rparr>)]
       \<and> map url (sent (snd (register d env w))) = map url (sent w) @ [''/auth/register'']
       \<and> sent (snd (register d env w)) = sent (snd (register (d\<lparr>phone := None\<rparr>) env w))"
  using assms
  by (simp add: register_sent api_request_sent_fields or_else_def config_def)

theorem register_empty_phone_placeholder_witness:
  "phone \<lparr>name = ''Asha'', email = ''asha@x.com'', password = ''pw123456'', phone = Some '''',
      address = Some ''12 Main St'', role = None\<rparr> = Some []
   \<and> read_ok (call \<lparr>call = \<lparr>read_ok = True, reply = Inl None\<rparr>, set_ok = True\<rparr>)
   \<and> map data (sent (snd (register
      \<lparr>name = ''Asha'', email = ''asha@x.com'', password = ''pw123456'', phone = Some '''',
        address = Some ''12 Main St'', role = None\<rparr>
      \<lparr>call = \<lparr>read_ok = True, reply = Inl None\<rparr>, set_ok = True\<rparr>
      (boot Map.empty)))) =
     [RegisterBody \<lparr>name = ''Asha'', email = ''asha@x.com'', password = ''pw123456'',
        phone = Some ''0000000000'', address = Some ''12 Main St'', role = None\<rparr>]"
  using register_empty_phone_placeholder [of
      "\<lparr>name = ''Asha'', email = ''asha@x.com'', password = ''pw123456'', phone = Some '''',
        address = Some ''12 Main St'', role = None\<rparr>"
      "\<lparr>call = \<lparr>read_ok = True, reply = Inl None\<rparr>, set_ok = True\<rparr>" "boot Map.empty",
      THEN conjunct1]
  by (simp add: boot_def)

section \<open>Reachable session states\<close>

text \<open>
  \<^verbatim>\<open>login\<close>, \<^verbatim>\<open>register\<close> and \<^verbatim>\<open>logout\<close> either leave \<^verbatim>\<open>user\<close> and \<^verbatim>\<open>token\<close>
  alone or assign both in the same step.
\<close>

lemma login_session:
  "(user (snd (login e p env w)) = user w \<and> token (snd (login e p env w)) = token w
      \<and> token_origin (snd (login e p env w)) = token_origin w)
   \<or> (user (snd (login e p env w)) \<noteq> None \<and> token (snd (login e p env w)) \<noteq> None
      \<and> token_origin (snd (login e p env w)) = Issued)"
proof (cases "api_request (call env) (config POST ''/auth/login'' (LoginBody e p)) w")
  case (Pair res w')
  have w': "user w' = user w" "token w' = token w" "token_origin w' = token_origin w"
    using api_request_session [of "call env" "config POST ''/auth/login'' (LoginBody e p)" w]
    by (simp_all add: Pair)
  show ?thesis
  proof (cases res)
    case (Inl err)
    with Pair w' show ?thesis by (simp add: login_def client_defs)
  next
    case (Inr r)
    from store_session_cases [of "set_ok env" r w'] Pair Inr w' show ?thesis
      by (auto simp add: login_def client_defs)
  qed
qed

lemma register_session:
  "(user (snd (register d env w)) = user w \<and> token (snd (register d env w)) = token w
      \<and> token_origin (snd (register d env w)) = token_origin w)
   \<or> (user (snd (register d env w)) \<noteq> None \<and> token (snd (register d env w)) \<noteq> None
      \<and> token_origin (snd (register d env w)) = Issued)"
proof (cases "api_request (call env) (config POST ''/auth/register''
         (RegisterBody (d\<lparr>phone := Some (or_else (phone d) ''0000000000'')\<rparr>))) w")
  case (Pair res w')
  have w': "user w' = user w" "token w' = token w" "token_origin w' = token_origin w"
    using api_request_session [of "call env" "config POST ''/auth/register''
         (RegisterBody (d\<lparr>phone := Some (or_else (phone d) ''0000000000'')\<rparr>))" w]
    by (simp_all add: Pair)
  show ?thesis
  proof (cases res)
    case (Inl err)
    with Pair w' show ?thesis by (simp add: register_def client_defs)
  next
    case (Inr r)
    from store_session_cases [of "set_ok env" r w'] Pair Inr w' show ?thesis
      by (auto simp add: register_def client_defs)
  qed
qed

lemma logout_session:
  "(user (snd (logout ok w)) = user w \<and> token (snd (logout ok w)) = token w
      \<and> token_origin (snd (logout ok w)) = token_origin w)
   \<or> (user (snd (logout ok w)) = None \<and> token (snd (logout ok w)) = None)"
  by (simp add: logout_def removeItem_def)

lemma step_invariant:
  assumes "session_invariant w"
  shows "session_invariant (step w ev)"
proof (cases ev)
  case (Login e p env)
  with login_session [of e p env w] assms show ?thesis
    by (auto simp add: session_invariant_def)
next
  case (Register d env)
  with register_session [of d env w] assms show ?thesis
    by (auto simp add: session_invariant_def)
next
  case (Logout ok)
  with logout_session [of ok w] assms show ?thesis
    by (auto simp add: session_invariant_def)
next
  case (Call m u b ok)
  with assms show ?thesis
    by (simp add: session_invariant_def api_request_session)
qed

lemma foldl_step_invariant:
  "session_invariant w \<Longrightarrow> session_invariant (foldl step w evs)"
  by (induction evs arbitrary: w) (simp_all add: step_invariant)

text \<open>
  The \<^verbatim>\<open>try\<close> block of \<^verbatim>\<open>loadStoredAuth\<close>, started without a user, ends in one of three
  ways: nothing assigned; the token assigned from the store and not validated; or the
  token assigned, validated, and the user assigned.
\<close>

lemma loadStoredAuth_try_session:
  assumes "user w = None"
  shows "(user (snd (loadStoredAuth_try env w)) = None
           \<and> token (snd (loadStoredAuth_try env w)) = token w
           \<and> token_origin (snd (loadStoredAuth_try env w)) = token_origin w)
       \<or> (user (snd (loadStoredAuth_try env w)) = None
           \<and> token_origin (snd (loadStoredAuth_try env w)) = FromStore)
       \<or> (user (snd (loadStoredAuth_try env w)) \<noteq> None
           \<and> token (snd (loadStoredAuth_try env w)) \<noteq> None
           \<and> token_origin (snd (loadStoredAuth_try env w)) = Validated)"
proof (cases "get_ok env")
  case False
  with assms show ?thesis by (simp add: loadStoredAuth_try_def getItem_def)
next
  case True
  show ?thesis
  proof (cases "storage w ''authToken''")
    case None
    with True assms show ?thesis by (simp add: loadStoredAuth_try_def getItem_def)
  next
    case (Some t)
    show ?thesis
    proof (cases "t = []")
      case True
      with \<open>get_ok env\<close> Some assms show ?thesis
        by (simp add: loadStoredAuth_try_def getItem_def)
    next
      case False
      let ?w1 = "w\<lparr>token := Some t, token_origin := FromStore\<rparr>"
      obtain res w' where
        call: "api_request (me env) (config GET ''/auth/me'' NoBody) ?w1 = (res, w')"
        by (cases "api_request (me env) (config GET ''/auth/me'' NoBody) ?w1")
      have w': "user w' = None" "token w' = Some t" "token_origin w' = FromStore"
        using api_request_session [of "me env" "config GET ''/auth/me'' NoBody" ?w1] assms
        by (simp_all add: call)
      from \<open>get_ok env\<close> Some False call w' show ?thesis
        by (cases res) (simp_all add: loadStoredAuth_try_def getItem_def client_defs)
    qed
  qed
qed

lemma hydrated_invariant: "session_invariant (hydrated st henv)"
  using loadStoredAuth_try_session [of "boot st" henv]
  by (auto simp add: hydrated_def session_invariant_def loadStoredAuth_session boot_simps)

text \<open>
  Claim C5: in the state of a fresh process, in the state after its hydration, and in
  every state reached from there by any sequence of \<^verbatim>\<open>login\<close>, \<^verbatim>\<open>register\<close>,
  \<^verbatim>\<open>logout\<close> and client calls, whatever the storage and the remote system do, the
  in-memory user is present if and only if the in-memory token is present and has been
  validated by the identity endpoint or was issued by a successful login or register.
\<close>

theorem session_invariant_reachable:
  "session_invariant (boot st) \<and> session_invariant (hydrated st henv)
   \<and> session_invariant (process st henv evs)"
proof (intro conjI)
  show "session_invariant (boot st)"
    by (simp add: session_invariant_def boot_simps)
  show "session_invariant (hydrated st henv)"
    by (rule hydrated_invariant)
  show "session_invariant (process st henv evs)"
    by (simp add: process_def foldl_step_invariant hydrated_invariant)
qed

text \<open>
  Three reachable states, with both sides of the invariant evaluated. After a
  hydration whose identity check is rejected, the token is held but not validated and no
  user is held. After a hydration whose identity check succeeds, both are held. After
  a further \<^verbatim>\<open>logout\<close>, neither is.
\<close>

theorem session_invariant_reachable_witness:
  "session_invariant (hydrated [''authToken'' \<mapsto> ''abc123'']
      \<lparr>get_ok = True, me = \<lparr>read_ok = True, reply = Inl None\<rparr>, remove_ok = True\<rparr>)
   \<and> user (hydrated [''authToken'' \<mapsto> ''abc123'']
      \<lparr>get_ok = True, me = \<lparr>read_ok = True, reply = Inl None\<rparr>, remove_ok = True\<rparr>) = None
   \<and> token_origin (hydrated [''authToken'' \<mapsto> ''abc123'']
      \<lparr>get_ok = True, me = \<lparr>read_ok = True, reply = Inl None\<rparr>, remove_ok = True\<rparr>) = FromStore
   \<and> session_invariant (hydrated [''authToken'' \<mapsto> ''abc123'']
      \<lparr>get_ok = True,
       me = \<lparr>read_ok = True,
             reply = Inr \<lparr>user_id = ''u1'', user_name = ''A'', user_email = ''a@b.com'',
               user_phone = None, user_address = None, user_role = ''customer''\<rparr>\<rparr>,
       remove_ok = True\<rparr>)
   \<and> user (hydrated [''authToken'' \<mapsto> ''abc123'']
      \<lparr>get_ok = True,
       me = \<lparr>read_ok = True,
             reply = Inr \<lparr>user_id = ''u1'', user_name = ''A'', user_email = ''a@b.com'',
               user_phone = None, user_address = None, user_role = ''customer''\<rparr>\<rparr>,
       remove_ok = True\<rparr>) =
     Some \<lparr>user_id = ''u1'', user_name = ''A'', user_email = ''a@b.com'',
       user_phone = None, user_address = None, user_role = ''customer''\<rparr>
   \<and> token (hydrated [''authToken'' \<mapsto> ''abc123'']
      \<lparr>get_ok = True,
       me = \<lparr>read_ok = True,
             reply = Inr \<lparr>user_id = ''u1'', user_name = ''A'', user_email = ''a@b.com'',
               user_phone = None, user_address = None, user_role = ''customer''\<rparr>\<rparr>,
       remove_ok = True\<rparr>) = Some ''abc123''
   \<and> session_invariant (process [''authToken'' \<mapsto> ''abc123'']
      \<lparr>get_ok = True,
       me = \<lparr>read_ok = True,
             reply = Inr \<lparr>user_id = ''u1'', user_name = ''A'', user_email = ''a@b.com'',
               user_phone = None, user_address = None, user_role = ''customer''\<rparr>\<rparr>,
       remove_ok = True\<rparr> [Logout True])
   \<and> token (process [''authToken'' \<mapsto> ''abc123'']
      \<lparr>get_ok = True,
       me = \<lparr>read_ok = True,
             reply = Inr \<lparr>user_id = ''u1'', user_name = ''A'', user_email = ''a@b.com'',
               user_phone = None, user_address = None, user_role = ''customer''\<rparr>\<rparr>,
       remove_ok = True\<rparr> [Logout True]) = None"
proof -
  let ?st = "[''authToken'' \<mapsto> ''abc123'']"
  let ?bad = "\<lparr>get_ok = True, me = \<lparr>read_ok = True, reply = Inl None\<rparr>, remove_ok = True\<rparr>"
  let ?good = "\<lparr>get_ok = True,
       me = \<lparr>read_ok = True,
             reply = Inr \<lparr>user_id = ''u1'', user_name = ''A'', user_email = ''a@b.com'',
               user_phone = None, user_address = None, user_role = ''customer''\<rparr>\<rparr>,
       remove_ok = True\<rparr>"
  have eval: "hydrated ?st ?bad =
      \<lparr>user = None, token = Some ''abc123'', isLoading = False, token_origin = FromStore,
       storage = Map.empty,
       sent = [(config GET ''/auth/me'' NoBody)
                 \<lparr>headers := default_headers(''Authorization'' \<mapsto> ''Bearer abc123'')\<rparr>]\<rparr>"
    "hydrated ?st ?good =
      \<lparr>user = Some \<lparr>user_id = ''u1'', user_name = ''A'', user_email = ''a@b.com'',
               user_phone = None, user_address = None, user_role = ''customer''\<rparr>,
       token = Some ''abc123'', isLoading = False, token_origin = Validated,
       storage = ?st,
       sent = [(config GET ''/auth/me'' NoBody)
                 \<lparr>headers := default_headers(''Authorization'' \<mapsto> ''Bearer abc123'')\<rparr>]\<rparr>"
    by (simp_all add: hydrated_def loadStoredAuth_def loadStoredAuth_try_def getItem_def
          removeItem_def boot_def client_defs api_request_def request_interceptor_def config_def)
  have out: "token (process ?st ?good [Logout True]) = None"
    by (simp add: process_def eval logout_def removeItem_def)
  show ?thesis
    using session_invariant_reachable [of ?st ?bad "[]"]
      session_invariant_reachable [of ?st ?good "[Logout True]"] out
    by (simp add: eval)
qed

section \<open>The loading flag\<close>

lemma login_isLoading: "isLoading (snd (login e p env w)) = isLoading w"
proof (cases "api_request (call env) (config POST ''/auth/login'' (LoginBody e p)) w")
  case (Pair res w')
  have w': "isLoading w' = isLoading w"
    using api_request_session(3) [of "call env" "config POST ''/auth/login'' (LoginBody e p)" w]
    by (simp add: Pair)
  show ?thesis
  proof (cases res)
    case (Inl err)
    with Pair w' show ?thesis by (simp add: login_def client_defs)
  next
    case (Inr r)
    from store_session_isLoading [of "set_ok env" r w'] Pair Inr w' show ?thesis
      by (cases "store_session (set_ok env) r w'"; cases "fst (store_session (set_ok env) r w')")
         (auto simp add: login_def client_defs)
  qed
qed

lemma register_isLoading: "isLoading (snd (register d env w)) = isLoading w"
proof (cases "api_request (call env) (config POST ''/auth/register''
         (RegisterBody (d\<lparr>phone := Some (or_else (phone d) ''0000000000'')\<rparr>))) w")
  case (Pair res w')
  have w': "isLoading w' = isLoading w"
    using api_request_session(3) [of "call env" "config POST ''/auth/register''
         (RegisterBody (d\<lparr>phone := Some (or_else (phone d) ''0000000000'')\<rparr>))" w]
    by (simp add: Pair)
  show ?thesis
  proof (cases res)
    case (Inl err)
    with Pair w' show ?thesis by (simp add: register_def client_defs)
  next
    case (Inr r)
    from store_session_isLoading [of "set_ok env" r w'] Pair Inr w' show ?thesis
      by (cases "store_session (set_ok env) r w'"; cases "fst (store_session (set_ok env) r w')")
         (auto simp add: register_def client_defs)
  qed
qed

lemma step_isLoading: "isLoading (step w ev) = isLoading w"
  by (cases ev) (simp_all add: login_isLoading register_isLoading api_request_session
        logout_def removeItem_def)

lemma foldl_step_isLoading: "isLoading (foldl step w evs) = isLoading w"
  by (induction evs arbitrary: w) (simp_all add: step_isLoading)

text \<open>
  Claim C6: \<^verbatim>\<open>isLoading\<close> is true in the state of a fresh process; it is false once
  \<^verbatim>\<open>loadStoredAuth\<close> has settled, whether the hydration succeeded, failed or rejected;
  \<^verbatim>\<open>login\<close>, \<^verbatim>\<open>register\<close>, \<^verbatim>\<open>logout\<close> and the client calls never change it, so it is
  false in every later state of the process.
\<close>

theorem isLoading_only_until_hydrated:
  "isLoading (boot st) = True
   \<and> isLoading (snd (loadStoredAuth henv w)) = False
   \<and> isLoading (hydrated st henv) = False
   \<and> isLoading (step w ev) = isLoading w
   \<and> isLoading (process st henv evs) = False"
  by (simp add: process_def foldl_step_isLoading hydrated_def loadStoredAuth_session
        boot_simps step_isLoading)

theorem isLoading_only_until_hydrated_witness:
  "isLoading (boot [''authToken'' \<mapsto> ''abc123'']) = True
   \<and> isLoading (hydrated [''authToken'' \<mapsto> ''abc123'']
        \<lparr>get_ok = True, me = \<lparr>read_ok = True, reply = Inl None\<rparr>, remove_ok = False\<rparr>) = False
   \<and> isLoading (process [''authToken'' \<mapsto> ''abc123'']
        \<lparr>get_ok = True, me = \<lparr>read_ok = True, reply = Inl None\<rparr>, remove_ok = False\<rparr>
        [Login ''a@b.com'' ''secret1'' \<lparr>call = \<lparr>read_ok = True, reply = Inl None\<rparr>, set_ok = True\<rparr>,
         Logout True,
         Call GET ''/menu'' NoBody True]) = False"
  using isLoading_only_until_hydrated [of "[''authToken'' \<mapsto> ''abc123'']"
      "\<lparr>get_ok = True, me = \<lparr>read_ok = True, reply = Inl None\<rparr>, remove_ok = False\<rparr>"
      "boot Map.empty" "Logout True"
      "[Login ''a@b.com'' ''secret1'' \<lparr>call = \<lparr>read_ok = True, reply = Inl None\<rparr>, set_ok = True\<rparr>,
        Logout True, Call GET ''/menu'' NoBody True]"]
  by simp

end
